theory Spec2Isabelle
  imports Main "HOL-Library.Word"
begin

section \<open>webdavfs: the remote-backed file handle and the filesystem adapter\<close>

text \<open>
  A shallow embedding of \<^verbatim>\<open>webdavfs/webdavfs.py\<close>: the class \<^verbatim>\<open>WebDAVFile\<close> (a
  random-access handle over an in-memory \<^verbatim>\<open>io.BytesIO\<close>) and the methods of
  \<^verbatim>\<open>WebDAVFS\<close> that open files and normalise remote attributes.

  Exceptions are values: every function that can raise returns \<open>error + result\<close>, with
  \<open>Inl\<close> for the exception. Mutation is state passing: a method takes the handle (and the
  remote store, when it talks to the server) and returns the updated ones. The state an
  exception leaves behind is not modelled.

  Three libraries the source calls are not part of it; each is modelled by what it
  documents: \<^verbatim>\<open>io.BytesIO\<close> of CPython 3, \<^verbatim>\<open>fs.mode.Mode\<close> of PyFilesystem2, and the
  remote client (\<^verbatim>\<open>webdav2\<close>), the last from the interface the specification gives for
  it. Paths are taken in the normal form that \<^verbatim>\<open>abspath(normpath(path))\<close> and
  \<^verbatim>\<open>validatepath\<close> of the \<^verbatim>\<open>fs\<close> library return, on which both are the identity: the
  functions that take a path agree with the source on such paths only, \<open>normal_path\<close>
  below says which these are, and the general statements about paths assume it.
\<close>

subsection \<open>Exceptions and bytes\<close>

datatype error =
    ValueError
  | IOError
  | KeyError
  | AttributeError
  | OverflowError
  | ResourceNotFound
  | FileExpected
  | FileExists
  | RemoteResourceNotFound
  | TransportError

type_synonym byte = "8 word"

subsection \<open>Normalised metadata\<close>

text \<open>
  The dictionary that \<^verbatim>\<open>_create_info_dict\<close> builds: three namespaces, each a dictionary
  from attribute names to Python values (\<^verbatim>\<open>None\<close>, strings, integers, booleans).
\<close>

datatype pyval = PNone | PStr string | PInt int | PBool bool

record info_dict =
  basic :: "string \<rightharpoonup> pyval"
  details :: "string \<rightharpoonup> pyval"
  access :: "string \<rightharpoonup> pyval"

subsection \<open>io.BytesIO\<close>

text \<open>
  The in-memory stream of the standard library: a byte buffer, a cursor, and the closed
  flag. Every method raises \<^verbatim>\<open>ValueError\<close> on a closed stream. The cursor may lie beyond
  the end of the buffer (after a seek); a read there returns nothing, a non-empty write
  there first pads the gap with zero bytes. Positions and sizes are index-sized integers
  (\<^verbatim>\<open>Py_ssize_t\<close>, 64 bits): an argument outside that range raises \<^verbatim>\<open>OverflowError\<close>.
  Running out of memory is not modelled.
\<close>

definition PY_SSIZE_T_MAX :: int where
  "PY_SSIZE_T_MAX = 2 ^ 63 - 1"

definition PY_SSIZE_T_MIN :: int where
  "PY_SSIZE_T_MIN = - (2 ^ 63)"

definition index_sized :: "int \<Rightarrow> bool" where
  "index_sized n = (PY_SSIZE_T_MIN \<le> n \<and> n \<le> PY_SSIZE_T_MAX)"

record bytesio =
  buffer :: "byte list"
  cursor :: nat
  bclosed :: bool

definition BytesIO :: bytesio where
  "BytesIO = \<lparr>buffer = [], cursor = 0, bclosed = False\<rparr>"

definition bio_nbytes :: "bytesio \<Rightarrow> error + nat" where
  \<comment> \<open>\<^verbatim>\<open>getbuffer().nbytes\<close>\<close>
  "bio_nbytes d = (if bclosed d then Inl ValueError else Inr (length (buffer d)))"

definition bio_read :: "bytesio \<Rightarrow> int \<Rightarrow> error + (byte list \<times> bytesio)" where
  \<comment> \<open>\<^verbatim>\<open>read(size)\<close>: a negative size, or one beyond what is left, reads what is left\<close>
  "bio_read d sz =
     (if bclosed d then Inl ValueError
      else if \<not> index_sized sz then Inl OverflowError
      else let n = int (length (buffer d)) - int (cursor d);
               k = (if sz < 0 \<or> sz > n then (if n < 0 then 0 else n) else sz)
           in Inr (take (nat k) (drop (cursor d) (buffer d)),
                   d\<lparr>cursor := cursor d + nat k\<rparr>))"

definition bio_write :: "bytesio \<Rightarrow> byte list \<Rightarrow> error + (nat \<times> bytesio)" where
  \<comment> \<open>\<^verbatim>\<open>write(b)\<close>: at the cursor, over what is there, growing the buffer as needed;
      nothing at all happens for an empty \<open>b\<close>\<close>
  "bio_write d b =
     (if bclosed d then Inl ValueError
      else if b = [] then Inr (0, d)
      else let endpos = cursor d + length b;
               padded = buffer d @ replicate (cursor d - length (buffer d)) 0
           in Inr (length b,
                   d\<lparr>buffer := take (cursor d) padded @ b @ drop endpos (buffer d),
                     cursor := endpos\<rparr>))"

definition bio_seek :: "bytesio \<Rightarrow> int \<Rightarrow> error + (int \<times> bytesio)" where
  \<comment> \<open>\<^verbatim>\<open>seek(pos)\<close> with the default \<^verbatim>\<open>whence = 0\<close>, the only form the source uses\<close>
  "bio_seek d p =
     (if bclosed d then Inl ValueError
      else if \<not> index_sized p then Inl OverflowError
      else if p < 0 then Inl ValueError
      else Inr (p, d\<lparr>cursor := nat p\<rparr>))"

definition bio_truncate :: "bytesio \<Rightarrow> int option \<Rightarrow> error + (int \<times> bytesio)" where
  \<comment> \<open>\<^verbatim>\<open>truncate(size=None)\<close>: \<^verbatim>\<open>None\<close> means the cursor; never grows the buffer, never
      moves the cursor\<close>
  "bio_truncate d sz =
     (if bclosed d then Inl ValueError
      else let s = (case sz of None \<Rightarrow> int (cursor d) | Some n \<Rightarrow> n)
           in if sz \<noteq> None \<and> \<not> index_sized s then Inl OverflowError
              else if s < 0 then Inl ValueError
              else if s < int (length (buffer d))
                   then Inr (s, d\<lparr>buffer := take (nat s) (buffer d)\<rparr>)
                   else Inr (s, d))"

definition bio_close :: "bytesio \<Rightarrow> bytesio" where
  "bio_close d = d\<lparr>buffer := [], bclosed := True\<rparr>"

subsection \<open>fs.mode.Mode\<close>

text \<open>
  The parsed open mode of PyFilesystem2. The mode is kept as its string; the facets are
  membership tests on it, as the properties of \<^verbatim>\<open>Mode\<close> are.
\<close>

definition validate :: "string \<Rightarrow> error + unit" where
  "validate m =
     (if m = [] then Inl ValueError
      else if \<not> set m \<subseteq> set ''rwxtab+'' then Inl ValueError
      else if hd m \<notin> set ''rwxa'' then Inl ValueError
      else if CHR ''t'' \<in> set m \<and> CHR ''b'' \<in> set m then Inl ValueError
      else Inr ())"

definition validate_bin :: "string \<Rightarrow> error + unit" where
  "validate_bin m =
     (case validate m of
        Inl e \<Rightarrow> Inl e
      | Inr _ \<Rightarrow> if CHR ''t'' \<in> set m then Inl ValueError else Inr ())"

definition reading :: "string \<Rightarrow> bool" where
  "reading m = (CHR ''r'' \<in> set m \<or> CHR ''+'' \<in> set m)"

definition writing :: "string \<Rightarrow> bool" where
  "writing m = (CHR ''w'' \<in> set m \<or> CHR ''a'' \<in> set m \<or> CHR ''+'' \<in> set m \<or> CHR ''x'' \<in> set m)"

definition appending :: "string \<Rightarrow> bool" where
  "appending m = (CHR ''a'' \<in> set m)"

definition exclusive :: "string \<Rightarrow> bool" where
  "exclusive m = (CHR ''x'' \<in> set m)"

subsection \<open>The remote client\<close>

text \<open>
  The server as the client shows it: what lives at each path, and the raw attributes the
  server reports for a path. An upload replaces the content at its path and nothing else.
\<close>

datatype resource = RFile (content: "byte list") | RDir

type_synonym raw_info = "(string \<times> string option) list"

record remote =
  resources :: "string \<rightharpoonup> resource"
  attributes :: "string \<Rightarrow> raw_info"

definition client_check :: "remote \<Rightarrow> string \<Rightarrow> bool" where
  \<comment> \<open>Modelled from the spec: \<^verbatim>\<open>checkExists(path) -> bool\<close> of the remote client.\<close>
  "client_check rem p = (case resources rem p of None \<Rightarrow> False | Some _ \<Rightarrow> True)"

definition client_is_dir :: "remote \<Rightarrow> string \<Rightarrow> error + bool" where
  \<comment> \<open>Modelled from the spec: \<^verbatim>\<open>isDirectory(path) -> bool\<close> of the remote client, which
      raises its not-found condition for a missing path.\<close>
  "client_is_dir rem p =
     (case resources rem p of
        None \<Rightarrow> Inl RemoteResourceNotFound
      | Some RDir \<Rightarrow> Inr True
      | Some (RFile _) \<Rightarrow> Inr False)"

definition client_info :: "remote \<Rightarrow> string \<Rightarrow> error + raw_info" where
  \<comment> \<open>Modelled from the spec: \<^verbatim>\<open>fetchAttributes(path) -> mapping(string, string)\<close>
      raising NotFound.\<close>
  "client_info rem p =
     (case resources rem p of
        None \<Rightarrow> Inl RemoteResourceNotFound
      | Some _ \<Rightarrow> Inr (attributes rem p))"

definition write_to :: "remote \<Rightarrow> string \<Rightarrow> bytesio \<Rightarrow> error + bytesio" where
  \<comment> \<open>Modelled from the spec: \<^verbatim>\<open>downloadInto(sink)\<close> raising NotFound; the whole object is
      written to the sink. A directory has no content to download.\<close>
  "write_to rem p sink =
     (case resources rem p of
        None \<Rightarrow> Inl RemoteResourceNotFound
      | Some RDir \<Rightarrow> Inl TransportError
      | Some (RFile bs) \<Rightarrow>
          (case bio_write sink bs of Inl e \<Rightarrow> Inl e | Inr (_, sink') \<Rightarrow> Inr sink'))"

definition read_from :: "remote \<Rightarrow> string \<Rightarrow> bytesio \<Rightarrow> error + (bytesio \<times> remote)" where
  \<comment> \<open>Modelled from the spec: \<^verbatim>\<open>uploadFrom(source)\<close>; the source is read from its cursor
      to its end and what was read replaces the remote content.\<close>
  "read_from rem p source =
     (case bio_read source (-1) of
        Inl e \<Rightarrow> Inl e
      | Inr (bs, source') \<Rightarrow>
          Inr (source', rem\<lparr>resources := (resources rem)(p \<mapsto> RFile bs)\<rparr>))"

subsection \<open>WebDAVFile\<close>

record handle =
  path :: string
  mode :: string
  data :: bytesio
  pos :: int
  closed :: bool

definition get_file_data :: "remote \<Rightarrow> string \<Rightarrow> string \<Rightarrow> error + bytesio" where
  "get_file_data rem p m =
     (case write_to rem p BytesIO of
        Inl RemoteResourceNotFound \<Rightarrow>
          (case bio_write BytesIO [] of Inl e \<Rightarrow> Inl e | Inr (_, d) \<Rightarrow> Inr d)
      | Inl e \<Rightarrow> Inl e
      | Inr d \<Rightarrow>
          if CHR ''a'' \<notin> set m
          then (case bio_seek d 0 of Inl e \<Rightarrow> Inl e | Inr (_, d') \<Rightarrow> Inr d')
          else Inr d)"

definition WebDAVFile :: "remote \<Rightarrow> string \<Rightarrow> string \<Rightarrow> error + handle" where
  \<comment> \<open>\<^verbatim>\<open>__init__\<close>; in append mode it calls \<^verbatim>\<open>self._get_data_size()\<close>, which the class does
      not define\<close>
  "WebDAVFile rem p m =
     (case validate m of
        Inl e \<Rightarrow> Inl e
      | Inr _ \<Rightarrow>
          (case get_file_data rem p m of
             Inl e \<Rightarrow> Inl e
           | Inr d \<Rightarrow>
               if CHR ''a'' \<in> set m then Inl AttributeError
               else Inr \<lparr>path = p, mode = m, data = d, pos = 0, closed = False\<rparr>))"

definition length_hint :: "handle \<Rightarrow> error + nat" where
  "length_hint h = bio_nbytes (data h)"

definition flush :: "handle \<Rightarrow> remote \<Rightarrow> error + (handle \<times> remote)" where
  "flush h rem =
     (if writing (mode h)
      then (case bio_seek (data h) 0 of
              Inl e \<Rightarrow> Inl e
            | Inr (_, d) \<Rightarrow>
                (case read_from rem (path h) d of
                   Inl e \<Rightarrow> Inl e
                 | Inr (d', rem') \<Rightarrow> Inr (h\<lparr>data := d'\<rparr>, rem')))
      else Inr (h, rem))"

definition iobase_close :: "handle \<Rightarrow> remote \<Rightarrow> error + (handle \<times> remote)" where
  \<comment> \<open>\<^verbatim>\<open>io.IOBase.close\<close>, the \<^verbatim>\<open>super().close()\<close> of the source: flushes, then marks the
      stream closed\<close>
  "iobase_close h rem =
     (if closed h then Inr (h, rem)
      else (case flush h rem of
              Inl e \<Rightarrow> Inl e
            | Inr (h', rem') \<Rightarrow> Inr (h'\<lparr>closed := True\<rparr>, rem')))"

definition close :: "handle \<Rightarrow> remote \<Rightarrow> error + (handle \<times> remote)" where
  "close h rem =
     (if \<not> closed h
      then (case flush h rem of
              Inl e \<Rightarrow> Inl e
            | Inr (h1, rem1) \<Rightarrow>
                (case iobase_close h1 rem1 of
                   Inl e \<Rightarrow> Inl e
                 | Inr (h2, rem2) \<Rightarrow> Inr (h2\<lparr>data := bio_close (data h2)\<rparr>, rem2)))
      else Inr (h, rem))"

definition read :: "handle \<Rightarrow> int \<Rightarrow> error + (byte list \<times> handle)" where
  \<comment> \<open>\<^verbatim>\<open>read(size=-1)\<close>; the new position is \<^verbatim>\<open>self.pos + size\<close> unless \<^verbatim>\<open>size\<close> is -1\<close>
  "read h sz =
     (if \<not> reading (mode h) then Inl IOError
      else (case (if sz \<noteq> -1 then Inr (pos h + sz)
                  else (case length_hint h of Inl e \<Rightarrow> Inl e | Inr n \<Rightarrow> Inr (int n))) of
              Inl e \<Rightarrow> Inl e
            | Inr p \<Rightarrow>
                (case bio_read (data h) sz of
                   Inl e \<Rightarrow> Inl e
                 | Inr (bs, d) \<Rightarrow> Inr (bs, h\<lparr>data := d, pos := p\<rparr>))))"

definition Seek_set :: int where "Seek_set = 0"
definition Seek_current :: int where "Seek_current = 1"
definition Seek_end :: int where "Seek_end = 2"

definition seek :: "handle \<Rightarrow> int \<Rightarrow> int \<Rightarrow> error + (int \<times> handle)" where
  "seek h p whence =
     (case (if whence = Seek_set
            then (if p < 0 then Inl ValueError else Inr p)
            else if whence = Seek_current
            then Inr (max 0 (pos h + p))
            else if whence = Seek_end
            then (if p > 0 then Inl ValueError
                  else (case length_hint h of
                          Inl e \<Rightarrow> Inl e
                        | Inr n \<Rightarrow> Inr (max 0 (int n + p))))
            else Inl ValueError) of
        Inl e \<Rightarrow> Inl e
      | Inr q \<Rightarrow>
          (case bio_seek (data h) q of
             Inl e \<Rightarrow> Inl e
           | Inr (_, d) \<Rightarrow> Inr (q, h\<lparr>data := d, pos := q\<rparr>)))"

definition tell :: "handle \<Rightarrow> int" where
  "tell h = pos h"

definition truncate :: "handle \<Rightarrow> int option \<Rightarrow> error + (int \<times> handle)" where
  \<comment> \<open>\<^verbatim>\<open>truncate(size=None)\<close>; \<^verbatim>\<open>size and ...\<close> and \<^verbatim>\<open>size or ...\<close> treat \<^verbatim>\<open>None\<close> and 0
      alike\<close>
  "truncate h sz =
     (case bio_truncate (data h) sz of
        Inl e \<Rightarrow> Inl e
      | Inr (_, d1) \<Rightarrow>
          (case bio_nbytes d1 of
             Inl e \<Rightarrow> Inl e
           | Inr data_size \<Rightarrow>
               (case sz of
                  None \<Rightarrow> Inr (int data_size, h\<lparr>data := d1\<rparr>)
                | Some s \<Rightarrow>
                    if s \<noteq> 0 \<and> int data_size < s
                    then (case bio_write d1 (replicate (nat (s - int data_size)) 0) of
                            Inl e \<Rightarrow> Inl e
                          | Inr (_, d2) \<Rightarrow> Inr (s, h\<lparr>data := d2\<rparr>))
                    else Inr (if s \<noteq> 0 then s else int data_size, h\<lparr>data := d1\<rparr>))))"

definition write_h :: "handle \<Rightarrow> byte list \<Rightarrow> error + (nat \<times> handle)" where
  \<comment> \<open>\<^verbatim>\<open>write(data)\<close>\<close>
  "write_h h b =
     (if \<not> writing (mode h) then Inl IOError
      else (case bio_write (data h) b of
              Inl e \<Rightarrow> Inl e
            | Inr (bytes_written, d) \<Rightarrow>
                (case seek (h\<lparr>data := d\<rparr>) (int bytes_written) Seek_current of
                   Inl e \<Rightarrow> Inl e
                 | Inr (_, h') \<Rightarrow> Inr (bytes_written, h'))))"

subsection \<open>WebDAVFS\<close>

text \<open>
  \<^verbatim>\<open>six.u\<close> is the identity (Python 3). Python's \<^verbatim>\<open>int\<close> on a string is a parameter,
  \<open>py_int\<close>: it gives the integer, or nothing where \<^verbatim>\<open>int\<close> raises \<^verbatim>\<open>ValueError\<close>.
\<close>

definition basics :: "string set" where
  "basics = {''name''}"

definition details_keys :: "string set" where
  \<comment> \<open>the module's \<^verbatim>\<open>details\<close>\<close>
  "details_keys = {''type'', ''accessed'', ''modified'', ''created'', ''metadata_changed'', ''size''}"

definition access_keys :: "string set" where
  \<comment> \<open>the module's \<^verbatim>\<open>access\<close>\<close>
  "access_keys = {''permissions'', ''user'', ''uid'', ''group'', ''gid''}"

definition ResourceType_directory :: int where "ResourceType_directory = 1"
definition ResourceType_file :: int where "ResourceType_file = 2"

definition six_u :: "string option \<Rightarrow> pyval" where
  "six_u v = (case v of None \<Rightarrow> PNone | Some s \<Rightarrow> PStr s)"

definition truthy :: "string option \<Rightarrow> bool" where
  \<comment> \<open>\<^verbatim>\<open>None\<close> and the empty string are false\<close>
  "truthy v = (case v of None \<Rightarrow> False | Some s \<Rightarrow> s \<noteq> [])"

fun info_loop :: "(string \<Rightarrow> int option) \<Rightarrow> info_dict \<Rightarrow> raw_info \<Rightarrow> error + info_dict" where
  \<comment> \<open>the \<^verbatim>\<open>for key, val in six.iteritems(info)\<close> loop; the dictionary under construction
      has no \<^verbatim>\<open>'other'\<close> entry, so the last branch raises \<^verbatim>\<open>KeyError\<close>\<close>
  "info_loop py_int d [] = Inr d"
| "info_loop py_int d ((key, val) # rest) =
     (if key \<in> basics
      then info_loop py_int (d\<lparr>basic := (basic d)(key \<mapsto> six_u val)\<rparr>) rest
      else if key \<in> details_keys
      then (if key = ''size'' \<and> truthy val
            then (case py_int (the val) of
                    None \<Rightarrow> Inl ValueError
                  | Some n \<Rightarrow> info_loop py_int (d\<lparr>details := (details d)(key \<mapsto> PInt n)\<rparr>) rest)
            else info_loop py_int (d\<lparr>details := (details d)(key \<mapsto> six_u val)\<rparr>) rest)
      else if key \<in> access_keys
      then info_loop py_int (d\<lparr>access := (access d)(key \<mapsto> six_u val)\<rparr>) rest
      else Inl KeyError)"

definition create_info_dict :: "(string \<Rightarrow> int option) \<Rightarrow> raw_info \<Rightarrow> error + info_dict" where
  "create_info_dict py_int info =
     info_loop py_int
       \<lparr>basic = [''is_dir'' \<mapsto> PBool False],
        details = [''type'' \<mapsto> PInt ResourceType_file],
        access = Map.empty\<rparr>
       info"

definition isdir :: "remote \<Rightarrow> string \<Rightarrow> error + bool" where
  "isdir rem p =
     (case client_is_dir rem p of
        Inl RemoteResourceNotFound \<Rightarrow> Inr False
      | Inl e \<Rightarrow> Inl e
      | Inr b \<Rightarrow> Inr b)"

definition exists :: "remote \<Rightarrow> string \<Rightarrow> bool" where
  "exists rem p = client_check rem p"

definition getinfo :: "(string \<Rightarrow> int option) \<Rightarrow> remote \<Rightarrow> string \<Rightarrow> error + info_dict" where
  \<comment> \<open>\<^verbatim>\<open>_path in '/'\<close> is a substring test: true of the empty path and of \<^verbatim>\<open>/\<close>\<close>
  "getinfo py_int rem p =
     (if p = [] \<or> p = ''/''
      then Inr \<lparr>basic = [''name'' \<mapsto> PStr [], ''is_dir'' \<mapsto> PBool True],
                details = [''type'' \<mapsto> PInt ResourceType_directory],
                access = Map.empty\<rparr>
      else (case client_info rem p of
              Inl RemoteResourceNotFound \<Rightarrow> Inl ResourceNotFound
            | Inl e \<Rightarrow> Inl e
            | Inr info \<Rightarrow>
                (case create_info_dict py_int info of
                   Inl RemoteResourceNotFound \<Rightarrow> Inl ResourceNotFound
                 | Inl e \<Rightarrow> Inl e
                 | Inr d \<Rightarrow>
                     (case isdir rem p of
                        Inl RemoteResourceNotFound \<Rightarrow> Inl ResourceNotFound
                      | Inl e \<Rightarrow> Inl e
                      | Inr b \<Rightarrow>
                          if b
                          then Inr (d\<lparr>basic := (basic d)(''is_dir'' \<mapsto> PBool True),
                                      details := (details d)(''type'' \<mapsto> PInt ResourceType_directory)\<rparr>)
                          else Inr d))))"

definition is_dir :: "info_dict \<Rightarrow> bool" where
  \<comment> \<open>\<^verbatim>\<open>Info.is_dir\<close>: the \<^verbatim>\<open>is_dir\<close> entry of the basic namespace\<close>
  "is_dir d = (basic d ''is_dir'' = Some (PBool True))"

definition openbin :: "(string \<Rightarrow> int option) \<Rightarrow> remote \<Rightarrow> string \<Rightarrow> string \<Rightarrow> error + handle" where
  \<comment> \<open>the test of \<^verbatim>\<open>_mode.exclusive\<close> comes after the \<^verbatim>\<open>try\<close> statement, on both of its
      paths\<close>
  "openbin py_int rem p m =
     (case validate m of
        Inl e \<Rightarrow> Inl e
      | Inr _ \<Rightarrow>
     (case validate_bin m of
        Inl e \<Rightarrow> Inl e
      | Inr _ \<Rightarrow>
     (case (case getinfo py_int rem p of
              Inl ResourceNotFound \<Rightarrow> if reading m then Inl ResourceNotFound else Inr ()
            | Inl e \<Rightarrow> Inl e
            | Inr info \<Rightarrow> if is_dir info then Inl FileExpected else Inr ()) of
        Inl e \<Rightarrow> Inl e
      | Inr _ \<Rightarrow>
          if exclusive m then Inl FileExists
          else WebDAVFile rem p m)))"

subsection \<open>Paths in normal form\<close>

text \<open>
  The paths of a file on which the path functions of the \<^verbatim>\<open>fs\<close> library are the identity:
  absolute, with at least one component after the leading slash, no component empty (no
  double or trailing slash), none of them \<^verbatim>\<open>.\<close> or \<^verbatim>\<open>..\<close>, and no NUL character (the
  \<^verbatim>\<open>invalid_path_chars\<close> of \<^verbatim>\<open>_meta\<close>). The root is not among them. \<open>split_slash\<close> is
  \<^verbatim>\<open>path.split('/')\<close>.
\<close>

fun split_slash :: "string \<Rightarrow> string list" where
  "split_slash [] = [[]]"
| "split_slash (c # cs) =
     (if c = CHR ''/'' then [] # split_slash cs
      else (case split_slash cs of [] \<Rightarrow> [[c]] | x # xs \<Rightarrow> (c # x) # xs))"

definition plain_component :: "string \<Rightarrow> bool" where
  "plain_component x = (x \<noteq> [] \<and> x \<noteq> ''.'' \<and> x \<noteq> ''..'')"

definition normal_path :: "string \<Rightarrow> bool" where
  "normal_path p =
     (case split_slash p of
        [] \<Rightarrow> False
      | c # cs \<Rightarrow> c = [] \<and> cs \<noteq> [] \<and> list_all plain_component cs \<and> CHR 0x00 \<notin> set p)"

subsection \<open>Scenarios and example inputs\<close>

text \<open>
  The round trip of the specification: open for writing, write \<open>B\<close>, close, open for
  reading, read to the end. \<open>old_content\<close> is what the server holds at the path before:
  the bytes of a file, nothing for a missing path.
\<close>

definition old_content :: "remote \<Rightarrow> string \<Rightarrow> byte list" where
  "old_content rem p = (case resources rem p of Some (RFile bs) \<Rightarrow> bs | _ \<Rightarrow> [])"

definition roundtrip ::
  "(string \<Rightarrow> int option) \<Rightarrow> remote \<Rightarrow> string \<Rightarrow> string \<Rightarrow> string \<Rightarrow> byte list \<Rightarrow> error + byte list" where
  "roundtrip py_int rem p wm rm B =
     (case openbin py_int rem p wm of
        Inl e \<Rightarrow> Inl e
      | Inr h \<Rightarrow>
     (case write_h h B of
        Inl e \<Rightarrow> Inl e
      | Inr (_, h1) \<Rightarrow>
     (case close h1 rem of
        Inl e \<Rightarrow> Inl e
      | Inr (_, rem') \<Rightarrow>
     (case openbin py_int rem' p rm of
        Inl e \<Rightarrow> Inl e
      | Inr h2 \<Rightarrow>
     (case read h2 (-1) of
        Inl e \<Rightarrow> Inl e
      | Inr (bs, _) \<Rightarrow> Inr bs)))))"

text \<open>The handle's reported position agrees with the cursor of its buffer.\<close>

definition in_sync :: "handle \<Rightarrow> bool" where
  "in_sync h = (tell h = int (cursor (data h)))"

text \<open>
  Example inputs. \<open>decimal_int\<close> is \<^verbatim>\<open>int\<close> on plain decimal digits. The example server
  holds \<^verbatim>\<open>/abc.txt\<close> with the three bytes \<^verbatim>\<open>abc\<close> and \<^verbatim>\<open>/hello.txt\<close> with the five bytes
  \<^verbatim>\<open>hello\<close>; \<open>abc_handle\<close> is \<^verbatim>\<open>/abc.txt\<close> as \<^verbatim>\<open>openbin\<close> returns it in mode \<^verbatim>\<open>r+\<close>.
\<close>

definition decimal_int :: "string \<Rightarrow> int option" where
  "decimal_int s =
     (if s = [] then None
      else if set s \<subseteq> set ''0123456789''
      then Some (foldl (\<lambda>a c. 10 * a + (of_char c - 48)) 0 s)
      else None)"

definition ex_attributes :: "string \<Rightarrow> raw_info" where
  "ex_attributes p =
     (if p = ''/abc.txt''
      then [(''name'', Some ''abc.txt''), (''size'', Some ''3''), (''modified'', None)]
      else [(''name'', Some ''hello.txt''), (''size'', Some ''5'')])"

definition ex_remote :: remote where
  "ex_remote =
     \<lparr>resources = [''/abc.txt'' \<mapsto> RFile [97, 98, 99],
                   ''/hello.txt'' \<mapsto> RFile [104, 101, 108, 108, 111]],
      attributes = ex_attributes\<rparr>"

definition abc_handle :: handle where
  "abc_handle =
     \<lparr>path = ''/abc.txt'', mode = ''r+'',
      data = \<lparr>buffer = [97, 98, 99], cursor = 0, bclosed = False\<rparr>,
      pos = 0, closed = False\<rparr>"

section \<open>Properties\<close>

subsection \<open>Modes\<close>

lemma validate_bin_validate: "validate_bin m = Inr () \<Longrightarrow> validate m = Inr ()"
  by (cases "validate m") (simp_all add: validate_bin_def)

lemma validate_hd: "validate m = Inr () \<Longrightarrow> m \<noteq> [] \<and> hd m \<in> set ''rwxa''"
  by (simp add: validate_def split: if_splits)

text \<open>A valid mode that neither reads, appends nor creates exclusively starts with \<^verbatim>\<open>w\<close>.\<close>

lemma plain_write_writing:
  assumes "validate_bin m = Inr ()" "\<not> reading m" "\<not> appending m" "\<not> exclusive m"
  shows "writing m"
proof -
  from assms(1) have ne: "m \<noteq> []" and hd: "hd m \<in> set ''rwxa''"
    using validate_bin_validate validate_hd by blast+
  from ne have mem: "hd m \<in> set m" by simp
  with assms(2-4) have "hd m \<noteq> CHR ''r''" "hd m \<noteq> CHR ''a''" "hd m \<noteq> CHR ''x''"
    by (auto simp add: reading_def appending_def exclusive_def)
  with hd have "hd m = CHR ''w''" by simp
  with mem show ?thesis by (auto simp add: writing_def)
qed

subsection \<open>The index range and normal paths\<close>

lemma index_sized_0 [simp]: "index_sized 0"
  by (simp add: index_sized_def PY_SSIZE_T_MAX_def PY_SSIZE_T_MIN_def)

lemma index_sized_minus_1 [simp]: "index_sized (- 1)"
  by (simp add: index_sized_def PY_SSIZE_T_MAX_def PY_SSIZE_T_MIN_def)

lemma index_sized_nonneg: "0 \<le> n \<Longrightarrow> index_sized n = (n \<le> PY_SSIZE_T_MAX)"
  by (auto simp add: index_sized_def PY_SSIZE_T_MIN_def)

lemma bio_seek_Inr:
  "bio_seek d q = Inr (r, d') \<Longrightarrow> 0 \<le> q \<and> r = q \<and> d' = d\<lparr>cursor := nat q\<rparr>"
  by (auto simp add: bio_seek_def split: if_splits)

lemma sum_bind_Inr:
  "(case t of Inl e \<Rightarrow> Inl e | Inr x \<Rightarrow> f x) = Inr r \<Longrightarrow> \<exists>x. t = Inr x \<and> f x = Inr r"
  by (cases t) simp_all

text \<open>A path in normal form is neither empty nor the root.\<close>

lemma normal_path_not_root: "normal_path p \<Longrightarrow> p \<noteq> [] \<and> p \<noteq> ''/''"
  by (auto simp add: normal_path_def plain_component_def)

subsection \<open>Opening\<close>

lemma getinfo_missing:
  assumes "resources rem p = None" "p \<noteq> []" "p \<noteq> ''/''"
  shows "getinfo py_int rem p = Inl ResourceNotFound"
  using assms by (simp add: getinfo_def client_info_def)

lemma info_loop_is_dir:
  "info_loop py_int d info = Inr d' \<Longrightarrow> basic d ''is_dir'' = Some (PBool False)
     \<Longrightarrow> basic d' ''is_dir'' = Some (PBool False)"
proof (induction py_int d info rule: info_loop.induct)
  case (1 py_int d)
  then show ?case by simp
next
  case (2 py_int d key val rest)
  then show ?case
    by (auto simp add: basics_def split: if_splits option.splits)
qed

lemma getinfo_file:
  assumes "resources rem p = Some (RFile bs)" "p \<noteq> []" "p \<noteq> ''/''"
    and "create_info_dict py_int (attributes rem p) = Inr d"
  shows "getinfo py_int rem p = Inr d \<and> \<not> is_dir d"
proof -
  from assms(4) have "basic d ''is_dir'' = Some (PBool False)"
    unfolding create_info_dict_def by (rule info_loop_is_dir) simp
  with assms show ?thesis
    by (simp add: getinfo_def client_info_def isdir_def client_is_dir_def is_dir_def)
qed

lemma get_file_data_missing:
  "resources rem p = None \<Longrightarrow> get_file_data rem p m = Inr BytesIO"
  by (simp add: get_file_data_def write_to_def bio_write_def BytesIO_def)

lemma get_file_data_file:
  "resources rem p = Some (RFile bs) \<Longrightarrow> CHR ''a'' \<notin> set m \<Longrightarrow>
     get_file_data rem p m = Inr \<lparr>buffer = bs, cursor = 0, bclosed = False\<rparr>"
  by (simp add: get_file_data_def write_to_def bio_write_def BytesIO_def bio_seek_def)

lemma openbin_missing_reading:
  assumes "resources rem p = None" "p \<noteq> []" "p \<noteq> ''/''"
    and "validate_bin m = Inr ()" "reading m"
  shows "openbin py_int rem p m = Inl ResourceNotFound"
  using assms validate_bin_validate [OF assms(4)]
  by (simp add: openbin_def getinfo_missing)

lemma openbin_missing_write:
  assumes "resources rem p = None" "p \<noteq> []" "p \<noteq> ''/''"
    and "validate_bin m = Inr ()" "\<not> reading m" "\<not> appending m" "\<not> exclusive m"
  shows "openbin py_int rem p m =
           Inr \<lparr>path = p, mode = m, data = BytesIO, pos = 0, closed = False\<rparr>"
  using assms validate_bin_validate [OF assms(4)]
  by (simp add: openbin_def getinfo_missing WebDAVFile_def get_file_data_missing appending_def)

lemma openbin_file:
  assumes "resources rem p = Some (RFile bs)" "p \<noteq> []" "p \<noteq> ''/''"
    and "create_info_dict py_int (attributes rem p) = Inr d"
    and "validate_bin m = Inr ()" "\<not> appending m" "\<not> exclusive m"
  shows "openbin py_int rem p m =
           Inr \<lparr>path = p, mode = m, data = \<lparr>buffer = bs, cursor = 0, bclosed = False\<rparr>,
                pos = 0, closed = False\<rparr>"
  using assms validate_bin_validate [OF assms(5)] getinfo_file [OF assms(1-4)]
  by (simp add: openbin_def WebDAVFile_def get_file_data_file appending_def)

subsection \<open>Writing, flushing, closing, reading\<close>

lemma flush_writing:
  assumes "writing (mode h)" and "\<not> bclosed (data h)"
  shows "flush h rem =
           Inr (h\<lparr>data := (data h)\<lparr>cursor := length (buffer (data h))\<rparr>\<rparr>,
                rem\<lparr>resources := (resources rem)(path h \<mapsto> RFile (buffer (data h)))\<rparr>)"
  using assms by (simp add: flush_def bio_seek_def read_from_def bio_read_def)

lemma close_writing:
  assumes "writing (mode h)" and "\<not> bclosed (data h)" and "\<not> closed h"
  shows "close h rem =
           Inr (h\<lparr>data := \<lparr>buffer = [], cursor = length (buffer (data h)), bclosed = True\<rparr>,
                  closed := True\<rparr>,
                rem\<lparr>resources := (resources rem)(path h \<mapsto> RFile (buffer (data h)))\<rparr>)"
  using assms by (simp add: close_def iobase_close_def flush_writing bio_close_def)

lemma write_h_at_start:
  assumes "writing (mode h)" and "data h = \<lparr>buffer = old, cursor = 0, bclosed = False\<rparr>"
    and "pos h = 0" and "int (length B) \<le> PY_SSIZE_T_MAX"
  shows "write_h h B =
           Inr (length B,
                h\<lparr>data := \<lparr>buffer = B @ drop (length B) old, cursor = length B, bclosed = False\<rparr>,
                  pos := int (length B)\<rparr>)"
  using assms
  by (cases "B = []")
     (simp_all add: write_h_def bio_write_def seek_def Seek_current_def Seek_set_def bio_seek_def
        Let_def index_sized_nonneg)

lemma read_all_at_start:
  assumes "reading (mode h)" and "data h = \<lparr>buffer = bs, cursor = 0, bclosed = False\<rparr>"
  shows "read h (-1) =
           Inr (bs, h\<lparr>data := \<lparr>buffer = bs, cursor = length bs, bclosed = False\<rparr>,
                     pos := int (length bs)\<rparr>)"
  using assms by (simp add: read_def length_hint_def bio_nbytes_def bio_read_def)

lemma abc_handle_opened:
  "openbin decimal_int ex_remote ''/abc.txt'' ''r+'' = Inr abc_handle"
  by (simp add: openbin_def validate_def validate_bin_def getinfo_def client_info_def
      ex_remote_def ex_attributes_def create_info_dict_def basics_def details_keys_def
      access_keys_def six_u_def truthy_def decimal_int_def isdir_def client_is_dir_def
      is_dir_def exclusive_def WebDAVFile_def get_file_data_def write_to_def BytesIO_def
      bio_write_def bio_seek_def abc_handle_def reading_def)

lemma ex_attributes_ok:
  "\<not> isl (create_info_dict decimal_int (attributes ex_remote p))"
  by (simp add: ex_remote_def ex_attributes_def create_info_dict_def basics_def details_keys_def
      access_keys_def truthy_def decimal_int_def six_u_def)

lemma mode_w:
  "validate_bin ''w'' = Inr () \<and> \<not> reading ''w'' \<and> \<not> appending ''w'' \<and> \<not> exclusive ''w''"
  by (simp add: validate_bin_def validate_def reading_def appending_def exclusive_def)

lemma mode_r:
  "validate_bin ''r'' = Inr () \<and> reading ''r'' \<and> \<not> appending ''r'' \<and> \<not> exclusive ''r''"
  by (simp add: validate_bin_def validate_def reading_def appending_def exclusive_def)

subsection \<open>The round trip\<close>

text \<open>
  Opening never truncates: in write mode the handle starts from the bytes the server
  holds, the write replaces the first \<open>length B\<close> of them, and the close uploads the
  whole buffer. What is read back is \<open>B\<close> followed by the old bytes beyond \<open>length B\<close>.
\<close>

lemma roundtrip_general:
  assumes wm: "validate_bin wm = Inr ()" "\<not> reading wm" "\<not> appending wm" "\<not> exclusive wm"
    and rm: "validate_bin rm = Inr ()" "reading rm" "\<not> appending rm" "\<not> exclusive rm"
    and p: "normal_path p" "resources rem p \<noteq> Some RDir"
    and attrs: "\<not> isl (create_info_dict py_int (attributes rem p))"
    and len: "int (length B) \<le> PY_SSIZE_T_MAX"
  shows "roundtrip py_int rem p wm rm B = Inr (B @ drop (length B) (old_content rem p))"
proof -
  let ?new = "B @ drop (length B) (old_content rem p)"
  let ?rem' = "rem\<lparr>resources := (resources rem)(p \<mapsto> RFile ?new)\<rparr>"
  from p(1) have ne: "p \<noteq> []" "p \<noteq> ''/''"
    using normal_path_not_root by blast+
  from attrs obtain d where d: "create_info_dict py_int (attributes rem p) = Inr d"
    by (cases "create_info_dict py_int (attributes rem p)") auto
  have w: "writing wm" using wm by (rule plain_write_writing)
  have op1: "openbin py_int rem p wm =
      Inr \<lparr>path = p, mode = wm,
           data = \<lparr>buffer = old_content rem p, cursor = 0, bclosed = False\<rparr>,
           pos = 0, closed = False\<rparr>"
  proof (cases "resources rem p")
    case None
    then show ?thesis
      using openbin_missing_write [OF None ne wm] by (simp add: old_content_def BytesIO_def)
  next
    case (Some r)
    with p(2) obtain bs where bs: "resources rem p = Some (RFile bs)" by (cases r) auto
    show ?thesis
      using openbin_file [OF bs ne d wm(1,3,4)] bs by (simp add: old_content_def)
  qed
  have d': "create_info_dict py_int (attributes ?rem' p) = Inr d" using d by simp
  have op2: "openbin py_int ?rem' p rm =
      Inr \<lparr>path = p, mode = rm, data = \<lparr>buffer = ?new, cursor = 0, bclosed = False\<rparr>,
           pos = 0, closed = False\<rparr>"
    by (rule openbin_file [OF _ ne d' rm(1,3,4)]) simp
  show ?thesis
    by (simp add: roundtrip_def op1 write_h_at_start w len close_writing op2 read_all_at_start
        rm(2))
qed

text \<open>
  C1 (as amended). Let \<open>B\<close> be a byte sequence (of at most \<open>2^63 - 1\<close> bytes, as every
  Python \<^verbatim>\<open>bytes\<close> is) and \<open>p\<close> a path in normal form that is not a directory on the
  server, whose remote resource is absent or holds content no longer than \<open>B\<close>, and
  whose raw attributes, as the server reports them, \<^verbatim>\<open>_create_info_dict\<close> accepts. Then
  opening \<open>p\<close> in a valid binary mode that does not read, append or create exclusively
  (\<^verbatim>\<open>w\<close>, \<^verbatim>\<open>wb\<close>), writing \<open>B\<close> and closing the handle, then opening \<open>p\<close> in a valid binary
  mode that reads and neither appends nor creates exclusively (\<^verbatim>\<open>r\<close>, \<^verbatim>\<open>rb\<close>, \<^verbatim>\<open>r+\<close>) and
  reading to the end, returns exactly \<open>B\<close>.
\<close>

theorem C1_roundtrip:
  assumes "validate_bin wm = Inr ()" "\<not> reading wm" "\<not> appending wm" "\<not> exclusive wm"
    and "validate_bin rm = Inr ()" "reading rm" "\<not> appending rm" "\<not> exclusive rm"
    and "normal_path p" "resources rem p \<noteq> Some RDir"
    and "\<not> isl (create_info_dict py_int (attributes rem p))"
    and "int (length B) \<le> PY_SSIZE_T_MAX"
    and "length (old_content rem p) \<le> length B"
  shows "roundtrip py_int rem p wm rm B = Inr B"
  using roundtrip_general [OF assms(1-12)] assms(13) by simp

text \<open>Writing \<^verbatim>\<open>hello\<close> over the three bytes of \<^verbatim>\<open>/abc.txt\<close> and reading it back.\<close>

theorem C1_roundtrip_witness:
  "validate_bin ''w'' = Inr () \<and> \<not> reading ''w'' \<and> \<not> appending ''w'' \<and> \<not> exclusive ''w''
   \<and> validate_bin ''r'' = Inr () \<and> reading ''r'' \<and> \<not> appending ''r'' \<and> \<not> exclusive ''r''
   \<and> normal_path ''/abc.txt'' \<and> resources ex_remote ''/abc.txt'' \<noteq> Some RDir
   \<and> \<not> isl (create_info_dict decimal_int (attributes ex_remote ''/abc.txt''))
   \<and> int (length [104, 101, 108, 108, 111 :: byte]) \<le> PY_SSIZE_T_MAX
   \<and> length (old_content ex_remote ''/abc.txt'') \<le> length [104, 101, 108, 108, 111 :: byte]
   \<and> roundtrip decimal_int ex_remote ''/abc.txt'' ''w'' ''r'' [104, 101, 108, 108, 111]
       = Inr [104, 101, 108, 108, 111]"
proof -
  have p: "normal_path ''/abc.txt''" "resources ex_remote ''/abc.txt'' \<noteq> Some RDir"
    by (simp_all add: ex_remote_def normal_path_def plain_component_def)
  have len: "int (length [104, 101, 108, 108, 111 :: byte]) \<le> PY_SSIZE_T_MAX"
    "length (old_content ex_remote ''/abc.txt'') \<le> length [104, 101, 108, 108, 111 :: byte]"
    by (simp_all add: old_content_def ex_remote_def PY_SSIZE_T_MAX_def)
  note w = mode_w [THEN conjunct1] mode_w [THEN conjunct2, THEN conjunct1]
    mode_w [THEN conjunct2, THEN conjunct2, THEN conjunct1]
    mode_w [THEN conjunct2, THEN conjunct2, THEN conjunct2]
  note r = mode_r [THEN conjunct1] mode_r [THEN conjunct2, THEN conjunct1]
    mode_r [THEN conjunct2, THEN conjunct2, THEN conjunct1]
    mode_r [THEN conjunct2, THEN conjunct2, THEN conjunct2]
  show ?thesis
    using C1_roundtrip [OF w r p ex_attributes_ok len] w r p ex_attributes_ok len
    by simp
qed

text \<open>
  The round trip as first stated fails where the server holds more than is written:
  writing the two bytes \<^verbatim>\<open>hi\<close> to \<^verbatim>\<open>/hello.txt\<close> and reading back gives \<^verbatim>\<open>hillo\<close>.
\<close>

theorem C1_roundtrip_counterexample:
  "roundtrip decimal_int ex_remote ''/hello.txt'' ''w'' ''r'' [104, 105]
     = Inr [104, 105, 108, 108, 111]
   \<and> roundtrip decimal_int ex_remote ''/hello.txt'' ''w'' ''r'' [104, 105] \<noteq> Inr [104, 105]"
proof -
  have "normal_path ''/hello.txt''" "resources ex_remote ''/hello.txt'' \<noteq> Some RDir"
    "int (length [104, 105 :: byte]) \<le> PY_SSIZE_T_MAX"
    by (simp_all add: ex_remote_def normal_path_def plain_component_def PY_SSIZE_T_MAX_def)
  then have "roundtrip decimal_int ex_remote ''/hello.txt'' ''w'' ''r'' [104, 105]
      = Inr ([104, 105] @ drop (length [104, 105 :: byte]) (old_content ex_remote ''/hello.txt''))"
    using mode_w mode_r ex_attributes_ok by (intro roundtrip_general) simp_all
  then show ?thesis by (simp add: old_content_def ex_remote_def)
qed

subsection \<open>Exclusive creation\<close>

text \<open>
  C2. In a mode with the exclusive-create flag, \<^verbatim>\<open>openbin\<close> should raise \<^verbatim>\<open>FileExists\<close>
  exactly when the path exists, and return a handle for a path that does not. On the
  code, the path \<^verbatim>\<open>/new.txt\<close> does not exist on the example server and opening it in mode
  \<^verbatim>\<open>x\<close> raises \<^verbatim>\<open>FileExists\<close>.
\<close>

theorem C2_exclusive_open_of_missing_path:
  "\<not> exists ex_remote ''/new.txt'' \<and> exclusive ''x''
   \<and> openbin py_int ex_remote ''/new.txt'' ''x'' = Inl FileExists"
  by (simp add: exists_def client_check_def openbin_def validate_def validate_bin_def getinfo_def
      client_info_def ex_remote_def reading_def exclusive_def)

text \<open>In an exclusive mode \<^verbatim>\<open>openbin\<close> returns no handle at all, whatever the server holds.\<close>

lemma openbin_exclusive_fails: "exclusive m \<Longrightarrow> isl (openbin py_int rem p m)"
  by (simp add: openbin_def split: sum.splits error.splits)

subsection \<open>Reading\<close>

text \<open>
  C3. \<^verbatim>\<open>read(n)\<close> should advance the reported position by the number of bytes returned,
  never past the end of the buffer. On the code, reading 10 bytes from position 0 of the
  three-byte file returns the three bytes and leaves the reported position at 10.
\<close>

theorem C3_read_beyond_end_position:
  "tell abc_handle = 0 \<and> length (buffer (data abc_handle)) = 3
   \<and> read abc_handle 10 =
        Inr ([97, 98, 99], abc_handle\<lparr>data := (data abc_handle)\<lparr>cursor := 3\<rparr>, pos := 10\<rparr>)
   \<and> tell (abc_handle\<lparr>data := (data abc_handle)\<lparr>cursor := 3\<rparr>, pos := 10\<rparr>) = 10"
  by (simp add: read_def abc_handle_def reading_def bio_read_def tell_def index_sized_def
      PY_SSIZE_T_MAX_def PY_SSIZE_T_MIN_def)

subsection \<open>Truncating\<close>

text \<open>
  C4. \<^verbatim>\<open>truncate(s)\<close> with \<open>s\<close> beyond the length \<open>L\<close> of the buffer should give a buffer
  of length \<open>s\<close>, the old content followed by \<open>s - L\<close> zero bytes, wherever the cursor
  is. On the code the zero bytes are written at the cursor: with the cursor at 0,
  \<^verbatim>\<open>truncate(5)\<close> of the three bytes \<^verbatim>\<open>abc\<close> leaves three bytes, two zero bytes and
  \<^verbatim>\<open>c\<close>, and returns 5.
\<close>

theorem C4_truncate_grow_at_cursor:
  "buffer (data abc_handle) = [97, 98, 99] \<and> cursor (data abc_handle) = 0
   \<and> truncate abc_handle (Some 5) =
        Inr (5, abc_handle\<lparr>data := \<lparr>buffer = [0, 0, 99], cursor = 2, bclosed = False\<rparr>\<rparr>)"
  by (simp add: truncate_def abc_handle_def bio_truncate_def bio_nbytes_def bio_write_def
      numeral_2_eq_2 index_sized_def PY_SSIZE_T_MAX_def PY_SSIZE_T_MIN_def)

text \<open>
  C5 (as amended). For every open handle, \<^verbatim>\<open>truncate()\<close> without a size cuts the buffer
  at the buffer's cursor \<open>c\<close>: the content becomes its first \<open>min c L\<close> bytes and that
  length is returned. The content is unchanged, and \<open>L\<close> returned, when the cursor is at
  or beyond the end of the buffer.
\<close>

theorem C5_truncate_default_at_cursor:
  assumes "\<not> bclosed (data h)"
  shows "truncate h None =
           Inr (int (min (cursor (data h)) (length (buffer (data h)))),
                h\<lparr>data := (data h)\<lparr>buffer := take (cursor (data h)) (buffer (data h))\<rparr>\<rparr>)"
  using assms
  by (cases "cursor (data h) < length (buffer (data h))")
     (simp_all add: truncate_def bio_truncate_def bio_nbytes_def Let_def min_def)

theorem C5_truncate_default_witness:
  "\<not> bclosed (data abc_handle)
   \<and> truncate abc_handle None = Inr (0, abc_handle\<lparr>data := (data abc_handle)\<lparr>buffer := []\<rparr>\<rparr>)"
  using C5_truncate_default_at_cursor [of abc_handle] by (simp add: abc_handle_def)

text \<open>
  \<^verbatim>\<open>truncate()\<close> is not a no-op on the content: with the cursor at 0 it empties the
  three-byte buffer and returns 0, not 3.
\<close>

theorem C5_truncate_default_counterexample:
  "buffer (data abc_handle) = [97, 98, 99]
   \<and> truncate abc_handle None = Inr (0, abc_handle\<lparr>data := (data abc_handle)\<lparr>buffer := []\<rparr>\<rparr>)
   \<and> buffer (data (abc_handle\<lparr>data := (data abc_handle)\<lparr>buffer := []\<rparr>\<rparr>))
       \<noteq> buffer (data abc_handle)
   \<and> (0 :: int) \<noteq> int (length (buffer (data abc_handle)))"
  by (simp add: truncate_def bio_truncate_def bio_nbytes_def abc_handle_def)

subsection \<open>Position and cursor\<close>

text \<open>Opening, seeking and writing leave the reported position on the buffer's cursor.\<close>

lemma seek_in_sync: "seek h p w = Inr (q, h') \<Longrightarrow> in_sync h'"
  by (auto simp add: seek_def in_sync_def tell_def bio_seek_def split: if_splits sum.splits)

lemma write_h_in_sync: "write_h h b = Inr (n, h') \<Longrightarrow> in_sync h'"
  by (auto simp add: write_h_def split: if_splits sum.splits dest: seek_in_sync)

lemma WebDAVFile_in_sync: "WebDAVFile rem p m = Inr h \<Longrightarrow> in_sync h"
  by (auto simp add: WebDAVFile_def get_file_data_def write_to_def bio_write_def bio_seek_def
      BytesIO_def in_sync_def tell_def Let_def
      split: if_splits sum.splits option.splits resource.splits error.splits)

text \<open>
  C6. After every operation on a handle the reported position should equal the cursor of
  the buffer. On the code, starting from the freshly opened three-byte file, where they
  agree: \<^verbatim>\<open>read(10)\<close> leaves position 10 and cursor 3; \<^verbatim>\<open>truncate(5)\<close> leaves position 0
  and cursor 2; and after \<^verbatim>\<open>seek(1)\<close>, where they agree again, \<^verbatim>\<open>flush()\<close> leaves position 1
  and cursor 3.
\<close>

theorem C6_position_cursor_diverge:
  "in_sync abc_handle
   \<and> read abc_handle 10 =
        Inr ([97, 98, 99], abc_handle\<lparr>data := (data abc_handle)\<lparr>cursor := 3\<rparr>, pos := 10\<rparr>)
   \<and> \<not> in_sync (abc_handle\<lparr>data := (data abc_handle)\<lparr>cursor := 3\<rparr>, pos := 10\<rparr>)
   \<and> truncate abc_handle (Some 5) =
        Inr (5, abc_handle\<lparr>data := \<lparr>buffer = [0, 0, 99], cursor = 2, bclosed = False\<rparr>\<rparr>)
   \<and> \<not> in_sync (abc_handle\<lparr>data := \<lparr>buffer = [0, 0, 99], cursor = 2, bclosed = False\<rparr>\<rparr>)
   \<and> seek abc_handle 1 Seek_set =
        Inr (1, abc_handle\<lparr>data := (data abc_handle)\<lparr>cursor := 1\<rparr>, pos := 1\<rparr>)
   \<and> in_sync (abc_handle\<lparr>data := (data abc_handle)\<lparr>cursor := 1\<rparr>, pos := 1\<rparr>)
   \<and> map_sum id fst
        (flush (abc_handle\<lparr>data := (data abc_handle)\<lparr>cursor := 1\<rparr>, pos := 1\<rparr>) ex_remote) =
        Inr (abc_handle\<lparr>data := (data abc_handle)\<lparr>cursor := 3\<rparr>, pos := 1\<rparr>)
   \<and> \<not> in_sync (abc_handle\<lparr>data := (data abc_handle)\<lparr>cursor := 3\<rparr>, pos := 1\<rparr>)"
  by (simp add: in_sync_def tell_def read_def abc_handle_def reading_def bio_read_def
      truncate_def bio_truncate_def bio_nbytes_def bio_write_def numeral_2_eq_2
      seek_def Seek_set_def bio_seek_def flush_def writing_def read_from_def
      index_sized_def PY_SSIZE_T_MAX_def PY_SSIZE_T_MIN_def)

subsection \<open>Normalising attributes\<close>

text \<open>
  C7. The normalisation should sort every raw attribute into one of the three namespaces,
  drop (or set aside) a key it does not recognise, and never fail on one. On the code, a
  mapping with the single unrecognised key \<^verbatim>\<open>etag\<close> raises \<^verbatim>\<open>KeyError\<close>.
\<close>

theorem C7_unrecognized_key_raises_KeyError:
  "''etag'' \<notin> basics \<union> details_keys \<union> access_keys
   \<and> create_info_dict py_int [(''etag'', Some ''abc'')] = Inl KeyError"
  by (simp add: create_info_dict_def basics_def details_keys_def access_keys_def)

text \<open>No mapping with an unrecognised key normalises.\<close>

lemma info_loop_unrecognised:
  "(key, val) \<in> set info \<Longrightarrow> key \<notin> basics \<union> details_keys \<union> access_keys
     \<Longrightarrow> isl (info_loop py_int d info)"
proof (induction py_int d info rule: info_loop.induct)
  case (1 py_int d)
  then show ?case by simp
next
  case (2 py_int d k v rest)
  then show ?case by (auto split: option.splits)
qed

subsection \<open>Missing files\<close>

text \<open>
  C8 (as amended). For every path in normal form with no remote resource: opening it in
  any valid binary mode that reads (\<^verbatim>\<open>r\<close>, \<^verbatim>\<open>rb\<close>, \<^verbatim>\<open>r+\<close>, and also \<^verbatim>\<open>w+\<close>) raises
  \<^verbatim>\<open>ResourceNotFound\<close>; opening it in a valid binary mode that does not read, append or
  create exclusively (\<^verbatim>\<open>w\<close>, \<^verbatim>\<open>wb\<close>) returns a handle with an empty buffer, and closing
  that handle leaves a zero-length file at the path.
\<close>

theorem C8_missing_file_policy:
  assumes "resources rem p = None" "normal_path p"
    and "validate_bin rm = Inr ()" "reading rm"
    and "validate_bin wm = Inr ()" "\<not> reading wm" "\<not> appending wm" "\<not> exclusive wm"
  shows "openbin py_int rem p rm = Inl ResourceNotFound
       \<and> openbin py_int rem p wm =
           Inr \<lparr>path = p, mode = wm, data = \<lparr>buffer = [], cursor = 0, bclosed = False\<rparr>,
                pos = 0, closed = False\<rparr>
       \<and> map_sum id snd
           (close \<lparr>path = p, mode = wm, data = \<lparr>buffer = [], cursor = 0, bclosed = False\<rparr>,
                   pos = 0, closed = False\<rparr> rem) =
           Inr (rem\<lparr>resources := (resources rem)(p \<mapsto> RFile [])\<rparr>)"
proof -
  from assms(2) have ne: "p \<noteq> []" "p \<noteq> ''/''"
    using normal_path_not_root by blast+
  have w: "writing wm" using assms(5-8) by (rule plain_write_writing)
  have a: "openbin py_int rem p rm = Inl ResourceNotFound"
    using assms(1) ne assms(3,4) by (rule openbin_missing_reading)
  have b: "openbin py_int rem p wm =
           Inr \<lparr>path = p, mode = wm, data = \<lparr>buffer = [], cursor = 0, bclosed = False\<rparr>,
                pos = 0, closed = False\<rparr>"
    using openbin_missing_write [OF assms(1) ne assms(5-8)] by (simp add: BytesIO_def)
  have c: "map_sum id snd
           (close \<lparr>path = p, mode = wm, data = \<lparr>buffer = [], cursor = 0, bclosed = False\<rparr>,
                   pos = 0, closed = False\<rparr> rem) =
           Inr (rem\<lparr>resources := (resources rem)(p \<mapsto> RFile [])\<rparr>)"
    using w by (simp add: close_writing)
  from a b c show ?thesis by simp
qed

theorem C8_missing_file_policy_witness:
  "resources ex_remote ''/missing.txt'' = None \<and> normal_path ''/missing.txt''
   \<and> validate_bin ''r'' = Inr () \<and> reading ''r''
   \<and> validate_bin ''w'' = Inr () \<and> \<not> reading ''w'' \<and> \<not> appending ''w'' \<and> \<not> exclusive ''w''
   \<and> openbin decimal_int ex_remote ''/missing.txt'' ''r'' = Inl ResourceNotFound
   \<and> openbin decimal_int ex_remote ''/missing.txt'' ''w'' =
       Inr \<lparr>path = ''/missing.txt'', mode = ''w'',
            data = \<lparr>buffer = [], cursor = 0, bclosed = False\<rparr>, pos = 0, closed = False\<rparr>
   \<and> map_sum id snd
       (close \<lparr>path = ''/missing.txt'', mode = ''w'',
               data = \<lparr>buffer = [], cursor = 0, bclosed = False\<rparr>, pos = 0, closed = False\<rparr>
          ex_remote) =
       Inr (ex_remote\<lparr>resources := (resources ex_remote)(''/missing.txt'' \<mapsto> RFile [])\<rparr>)"
proof -
  have h: "resources ex_remote ''/missing.txt'' = None" "normal_path ''/missing.txt''"
    "validate_bin ''r'' = Inr ()" "reading ''r''"
    "validate_bin ''w'' = Inr ()" "\<not> reading ''w''" "\<not> appending ''w''" "\<not> exclusive ''w''"
    by (simp_all add: ex_remote_def validate_bin_def validate_def reading_def appending_def
        exclusive_def normal_path_def plain_component_def)
  show ?thesis
    using C8_missing_file_policy [OF h, of decimal_int] h by simp
qed

text \<open>
  Not every mode that writes opens a missing path: \<^verbatim>\<open>w+\<close> is a valid binary mode that
  writes, and because it also reads, opening the missing \<^verbatim>\<open>/missing.txt\<close> in it raises
  \<^verbatim>\<open>ResourceNotFound\<close>.
\<close>

theorem C8_missing_file_policy_counterexample:
  "resources ex_remote ''/missing.txt'' = None \<and> normal_path ''/missing.txt''
   \<and> validate_bin ''w+'' = Inr () \<and> writing ''w+''
   \<and> openbin decimal_int ex_remote ''/missing.txt'' ''w+'' = Inl ResourceNotFound"
  by (simp add: openbin_def validate_def validate_bin_def getinfo_def client_info_def
      ex_remote_def reading_def writing_def normal_path_def plain_component_def)

text \<open>
  The two other families of writing modes, on a missing path: append mode stops at the
  undefined \<^verbatim>\<open>_get_data_size\<close>, and exclusive mode raises \<^verbatim>\<open>FileExists\<close>.
\<close>

lemma openbin_missing_append_exclusive:
  "openbin py_int ex_remote ''/missing.txt'' ''a'' = Inl AttributeError
   \<and> openbin py_int ex_remote ''/missing.txt'' ''x'' = Inl FileExists"
  by (simp add: openbin_def validate_def validate_bin_def getinfo_def client_info_def
      ex_remote_def reading_def exclusive_def WebDAVFile_def get_file_data_def write_to_def
      bio_write_def BytesIO_def)

subsection \<open>Seeking\<close>

text \<open>A seek that succeeds returns the position it has set, which is not negative.\<close>

lemma seek_Inr:
  assumes "seek h p w = Inr (q, h')"
  shows "tell h' = q \<and> 0 \<le> q"
proof -
  from assms [unfolded seek_def, THEN sum_bind_Inr]
  obtain x where x:
    "(case bio_seek (data h) x of Inl e \<Rightarrow> Inl e
      | Inr (u, d) \<Rightarrow> Inr (x, h\<lparr>data := d, pos := x\<rparr>)) = Inr (q, h')"
    by blast
  from x [THEN sum_bind_Inr] obtain u d where
    s: "bio_seek (data h) x = Inr (u, d)"
    and r: "Inr (x, h\<lparr>data := d, pos := x\<rparr>) = (Inr (q, h') :: error + int \<times> handle)"
    by auto
  from s have "0 \<le> x" by (rule bio_seek_Inr [THEN conjunct1])
  with r show ?thesis by (auto simp add: tell_def)
qed

text \<open>
  C9 (as amended). For every open handle, with \<open>L\<close> the length of its buffer:
  \<^verbatim>\<open>seek(a, start)\<close> raises \<^verbatim>\<open>ValueError\<close> for \<open>a < 0\<close> and moves to \<open>a\<close> for
  \<open>0 \<le> a \<le> 2^63 - 1\<close>; \<^verbatim>\<open>seek(b, end)\<close> raises \<^verbatim>\<open>ValueError\<close> for \<open>b > 0\<close> and moves to
  \<open>max 0 (L + b)\<close> for \<open>b \<le> 0\<close>; \<^verbatim>\<open>seek(c, current)\<close> moves to \<open>max 0 (tell + c)\<close>, and
  fails only when that position is beyond \<open>2^63 - 1\<close>, the largest index the buffer
  takes, with \<^verbatim>\<open>OverflowError\<close>. Every seek that succeeds returns the new position, which
  is what \<^verbatim>\<open>tell\<close> then reports, and is not negative.
\<close>

theorem C9_seek_bounds:
  assumes "\<not> bclosed (data h)"
  shows "(a < 0 \<longrightarrow> seek h a Seek_set = Inl ValueError)
       \<and> (0 \<le> a' \<and> a' \<le> PY_SSIZE_T_MAX \<longrightarrow>
            seek h a' Seek_set = Inr (a', h\<lparr>data := (data h)\<lparr>cursor := nat a'\<rparr>, pos := a'\<rparr>))
       \<and> (0 < b \<longrightarrow> seek h b Seek_end = Inl ValueError)
       \<and> (b' \<le> 0 \<and> max 0 (int (length (buffer (data h))) + b') \<le> PY_SSIZE_T_MAX \<longrightarrow>
            seek h b' Seek_end =
              Inr (max 0 (int (length (buffer (data h))) + b'),
                   h\<lparr>data := (data h)\<lparr>cursor := nat (max 0 (int (length (buffer (data h))) + b'))\<rparr>,
                     pos := max 0 (int (length (buffer (data h))) + b')\<rparr>))
       \<and> (max 0 (tell h + c) \<le> PY_SSIZE_T_MAX \<longrightarrow>
            seek h c Seek_current =
              Inr (max 0 (tell h + c),
                   h\<lparr>data := (data h)\<lparr>cursor := nat (max 0 (tell h + c))\<rparr>,
                     pos := max 0 (tell h + c)\<rparr>))
       \<and> (PY_SSIZE_T_MAX < max 0 (tell h + c') \<longrightarrow>
            seek h c' Seek_current = Inl OverflowError)
       \<and> (seek h p w = Inr (q, h') \<longrightarrow> tell h' = q \<and> 0 \<le> q)"
proof -
  have set_neg: "a < 0 \<longrightarrow> seek h a Seek_set = Inl ValueError"
    by (simp add: seek_def)
  have set_ok: "0 \<le> a' \<and> a' \<le> PY_SSIZE_T_MAX \<longrightarrow>
      seek h a' Seek_set = Inr (a', h\<lparr>data := (data h)\<lparr>cursor := nat a'\<rparr>, pos := a'\<rparr>)"
    using assms by (simp add: seek_def bio_seek_def index_sized_nonneg)
  have end_pos: "0 < b \<longrightarrow> seek h b Seek_end = Inl ValueError"
    by (simp add: seek_def Seek_set_def Seek_current_def Seek_end_def)
  have end_ok: "b' \<le> 0 \<and> max 0 (int (length (buffer (data h))) + b') \<le> PY_SSIZE_T_MAX \<longrightarrow>
      seek h b' Seek_end =
        Inr (max 0 (int (length (buffer (data h))) + b'),
             h\<lparr>data := (data h)\<lparr>cursor := nat (max 0 (int (length (buffer (data h))) + b'))\<rparr>,
               pos := max 0 (int (length (buffer (data h))) + b')\<rparr>)"
    using assms
    by (simp add: seek_def Seek_set_def Seek_current_def Seek_end_def length_hint_def
        bio_nbytes_def bio_seek_def index_sized_nonneg)
  have cur_ok: "max 0 (tell h + c) \<le> PY_SSIZE_T_MAX \<longrightarrow>
      seek h c Seek_current =
        Inr (max 0 (tell h + c),
             h\<lparr>data := (data h)\<lparr>cursor := nat (max 0 (tell h + c))\<rparr>,
               pos := max 0 (tell h + c)\<rparr>)"
    using assms
    by (simp add: seek_def Seek_set_def Seek_current_def tell_def bio_seek_def
        index_sized_nonneg)
  have cur_over: "PY_SSIZE_T_MAX < max 0 (tell h + c') \<longrightarrow>
      seek h c' Seek_current = Inl OverflowError"
    using assms
    by (auto simp add: seek_def Seek_set_def Seek_current_def tell_def bio_seek_def
        index_sized_nonneg)
  have ret: "seek h p w = Inr (q, h') \<longrightarrow> tell h' = q \<and> 0 \<le> q"
    using seek_Inr by blast
  show ?thesis
    by (intro conjI set_neg set_ok end_pos end_ok cur_ok cur_over ret)
qed

text \<open>
  From position 2 of the three-byte file: \<^verbatim>\<open>seek(-1, start)\<close> and \<^verbatim>\<open>seek(1, end)\<close> fail,
  \<^verbatim>\<open>seek(1, start)\<close> gives 1, \<^verbatim>\<open>seek(-1, end)\<close> gives 2, \<^verbatim>\<open>seek(-5, current)\<close> gives 0,
  \<^verbatim>\<open>seek(2^63, current)\<close> overflows, and \<^verbatim>\<open>seek(0, start)\<close> returns the 0 that \<^verbatim>\<open>tell\<close>
  reports.
\<close>

theorem C9_seek_bounds_witness:
  "\<not> bclosed (data (abc_handle\<lparr>data := (data abc_handle)\<lparr>cursor := 2\<rparr>, pos := 2\<rparr>))
   \<and> ((- 1 :: int) < 0
        \<and> seek (abc_handle\<lparr>data := (data abc_handle)\<lparr>cursor := 2\<rparr>, pos := 2\<rparr>) (- 1) Seek_set
            = Inl ValueError)
   \<and> ((0 :: int) \<le> 1 \<and> 1 \<le> PY_SSIZE_T_MAX
        \<and> seek (abc_handle\<lparr>data := (data abc_handle)\<lparr>cursor := 2\<rparr>, pos := 2\<rparr>) 1 Seek_set
            = Inr (1, abc_handle\<lparr>data := (data abc_handle)\<lparr>cursor := 1\<rparr>, pos := 1\<rparr>))
   \<and> ((0 :: int) < 1
        \<and> seek (abc_handle\<lparr>data := (data abc_handle)\<lparr>cursor := 2\<rparr>, pos := 2\<rparr>) 1 Seek_end
            = Inl ValueError)
   \<and> ((- 1 :: int) \<le> 0
        \<and> seek (abc_handle\<lparr>data := (data abc_handle)\<lparr>cursor := 2\<rparr>, pos := 2\<rparr>) (- 1) Seek_end
            = Inr (2, abc_handle\<lparr>data := (data abc_handle)\<lparr>cursor := 2\<rparr>, pos := 2\<rparr>))
   \<and> seek (abc_handle\<lparr>data := (data abc_handle)\<lparr>cursor := 2\<rparr>, pos := 2\<rparr>) (- 5) Seek_current
        = Inr (0, abc_handle)
   \<and> (PY_SSIZE_T_MAX < 2 + 2 ^ 63
        \<and> seek (abc_handle\<lparr>data := (data abc_handle)\<lparr>cursor := 2\<rparr>, pos := 2\<rparr>) (2 ^ 63)
            Seek_current = Inl OverflowError)
   \<and> (seek (abc_handle\<lparr>data := (data abc_handle)\<lparr>cursor := 2\<rparr>, pos := 2\<rparr>) 0 Seek_set
        = Inr (0, abc_handle) \<and> tell abc_handle = 0)"
proof -
  let ?h = "abc_handle\<lparr>data := (data abc_handle)\<lparr>cursor := 2\<rparr>, pos := 2\<rparr>"
  have o: "\<not> bclosed (data ?h)" by (simp add: abc_handle_def)
  have s: "seek ?h 0 Seek_set = Inr (0, abc_handle)"
    by (simp add: seek_def Seek_set_def bio_seek_def abc_handle_def)
  have l: "length (buffer (data ?h)) = 3" "tell ?h = 2"
    by (simp_all add: abc_handle_def tell_def)
  show ?thesis
    using C9_seek_bounds [OF o, of "- 1" 1 1 "- 1" "- 5" "2 ^ 63" 0 Seek_set 0 abc_handle] o s
    by (simp add: l PY_SSIZE_T_MAX_def) (simp add: abc_handle_def tell_def)
qed

text \<open>
  A seek from the current position can fail: from position 0, \<^verbatim>\<open>seek(2^63, current)\<close>
  raises \<^verbatim>\<open>OverflowError\<close>.
\<close>

theorem C9_seek_bounds_counterexample:
  "seek abc_handle 9223372036854775808 Seek_current = Inl OverflowError"
  by (simp add: seek_def Seek_set_def Seek_current_def abc_handle_def bio_seek_def
      index_sized_def PY_SSIZE_T_MAX_def PY_SSIZE_T_MIN_def)

subsection \<open>Flushing\<close>

text \<open>
  What a flush keeps: for every open writable handle it leaves the bytes of the buffer
  and the reported position as they are, puts the bytes of the buffer at the handle's
  path on the server and changes nothing else there, and a second flush right after
  uploads the same bytes. What it does not keep is the cursor of the buffer, which the
  upload leaves at the end.
\<close>

lemma flush_keeps_content_and_position:
  assumes "writing (mode h)" and "\<not> bclosed (data h)"
  shows "flush h rem =
           Inr (h\<lparr>data := (data h)\<lparr>cursor := length (buffer (data h))\<rparr>\<rparr>,
                rem\<lparr>resources := (resources rem)(path h \<mapsto> RFile (buffer (data h)))\<rparr>)
       \<and> buffer (data (h\<lparr>data := (data h)\<lparr>cursor := length (buffer (data h))\<rparr>\<rparr>))
           = buffer (data h)
       \<and> tell (h\<lparr>data := (data h)\<lparr>cursor := length (buffer (data h))\<rparr>\<rparr>) = tell h
       \<and> flush (h\<lparr>data := (data h)\<lparr>cursor := length (buffer (data h))\<rparr>\<rparr>)
               (rem\<lparr>resources := (resources rem)(path h \<mapsto> RFile (buffer (data h)))\<rparr>) =
           Inr (h\<lparr>data := (data h)\<lparr>cursor := length (buffer (data h))\<rparr>\<rparr>,
                rem\<lparr>resources := (resources rem)(path h \<mapsto> RFile (buffer (data h)))\<rparr>)"
  using assms by (simp add: flush_writing tell_def)

text \<open>
  C10. \<^verbatim>\<open>flush()\<close> should leave the content of the buffer and the reported position
  unchanged and have no effect but the upload. On the code it has another: on the
  three-byte file at position 1, where reading one byte gives \<^verbatim>\<open>b\<close>, a flush leaves the
  content and the reported position 1 as they are but moves the cursor of the buffer to
  3, and reading one byte then gives nothing.
\<close>

theorem C10_flush_moves_cursor:
  "map_sum id fst (read (abc_handle\<lparr>data := (data abc_handle)\<lparr>cursor := 1\<rparr>, pos := 1\<rparr>) 1)
     = Inr [98]
   \<and> map_sum id fst
       (flush (abc_handle\<lparr>data := (data abc_handle)\<lparr>cursor := 1\<rparr>, pos := 1\<rparr>) ex_remote)
     = Inr (abc_handle\<lparr>data := (data abc_handle)\<lparr>cursor := 3\<rparr>, pos := 1\<rparr>)
   \<and> map_sum id fst (read (abc_handle\<lparr>data := (data abc_handle)\<lparr>cursor := 3\<rparr>, pos := 1\<rparr>) 1)
     = Inr []
   \<and> abc_handle\<lparr>data := (data abc_handle)\<lparr>cursor := 3\<rparr>, pos := 1\<rparr>
     \<noteq> abc_handle\<lparr>data := (data abc_handle)\<lparr>cursor := 1\<rparr>, pos := 1\<rparr>"
  by (simp add: read_def abc_handle_def reading_def bio_read_def flush_def writing_def
      bio_seek_def read_from_def index_sized_def PY_SSIZE_T_MAX_def PY_SSIZE_T_MIN_def)

end
